theory Spec2Isabelle
  imports Complex_Main
begin

section \<open>Python values that cross the plugin's boundary\<close>

text \<open>
  The plugin \<^verbatim>\<open>src/izneo_get/plugins/mangas_io.py\<close> handles what \<^verbatim>\<open>response.json()\<close>
  returns: \<^verbatim>\<open>None\<close>, booleans, ints, floats, strings, lists and dicts with string
  keys. A float is the rational it denotes, or an infinity (\<^verbatim>\<open>json.loads\<close> and
  \<^verbatim>\<open>float\<close> overflow to one); NaN is no JSON number and negative zero is identified with
  zero, which \<^verbatim>\<open>==\<close> cannot tell apart. A dict keeps its entries in insertion order; the
  entries of a parsed dict have distinct keys and \<open>map_of\<close> reads them.

  A \<^verbatim>\<open>str\<close> is a list of 8-bit characters (\<open>JStr\<close>), every one of which the locale's
  encoding is taken to encode, as UTF-8 and Latin-1 do. JSON also yields strings that
  no encoding encodes: \<^verbatim>\<open>"\ud800"\<close> decodes to a lone surrogate. \<open>JUStr\<close> is a
  \<^verbatim>\<open>str\<close> that holds at least one of them among its 8-bit characters. Other code
  points beyond 8 bits are outside the model.
\<close>

datatype pyfloat = Finite rat | PosInf | NegInf

datatype uchar = Ch char | Surrogate nat

datatype json =
    JNull
  | JBool bool
  | JInt int
  | JFloat pyfloat
  | JStr string
  | JUStr "uchar list"
  | JArr "json list"
  | JObj "(string \<times> json) list"

text \<open>The exceptions of the model. \<open>KeyboardInterrupt\<close> stands for the exceptions that are
  not subclasses of \<^verbatim>\<open>Exception\<close>, which \<^verbatim>\<open>except Exception\<close> lets through.\<close>

datatype exc =
    RequestException
  | JSONDecodeError
  | AttributeError
  | KeyError
  | TypeError
  | ValueError
  | FileNotFoundError
  | OSError
  | EOFError
  | UnicodeEncodeError
  | KeyboardInterrupt

definition is_Exception :: "exc \<Rightarrow> bool" where
  "is_Exception e = (e \<noteq> KeyboardInterrupt)"

text \<open>Sequencing of computations that may raise.\<close>

definition bnd :: "exc + 'a \<Rightarrow> ('a \<Rightarrow> exc + 'b) \<Rightarrow> exc + 'b" where
  "bnd m f = (case m of Inl e \<Rightarrow> Inl e | Inr x \<Rightarrow> f x)"

text \<open>Truth value testing (\<^verbatim>\<open>if x\<close>, \<^verbatim>\<open>not x\<close>).\<close>

fun truthy :: "json \<Rightarrow> bool" where
  "truthy JNull = False"
| "truthy (JBool b) = b"
| "truthy (JInt i) = (i \<noteq> 0)"
| "truthy (JFloat f) = (f \<noteq> Finite 0)"
| "truthy (JStr s) = (s \<noteq> [])"
| "truthy (JUStr us) = (us \<noteq> [])"
| "truthy (JArr xs) = (xs \<noteq> [])"
| "truthy (JObj kvs) = (kvs \<noteq> [])"

text \<open>The numeric value of a bool, int or float: Python compares them exactly, and
  \<^verbatim>\<open>True == 1 == 1.0\<close>.\<close>

fun num_val :: "json \<Rightarrow> pyfloat option" where
  "num_val (JBool b) = Some (Finite (if b then 1 else 0))"
| "num_val (JInt i) = Some (Finite (of_int i))"
| "num_val (JFloat f) = Some f"
| "num_val _ = None"

text \<open>Python's \<^verbatim>\<open>==\<close> on these values.\<close>

fun py_eq :: "json \<Rightarrow> json \<Rightarrow> bool"
  and py_eq_items :: "(string \<times> json) list \<Rightarrow> (string \<times> json) list \<Rightarrow> bool"
  and py_eq_list :: "json list \<Rightarrow> json list \<Rightarrow> bool" where
  "py_eq JNull b = (b = JNull)"
| "py_eq (JBool x) b = (num_val b = num_val (JBool x))"
| "py_eq (JInt x) b = (num_val b = num_val (JInt x))"
| "py_eq (JFloat x) b = (num_val b = Some x)"
| "py_eq (JStr s) b = (b = JStr s)"
| "py_eq (JUStr us) b = (b = JUStr us)"
| "py_eq (JArr xs) b = (case b of JArr ys \<Rightarrow> py_eq_list xs ys | _ \<Rightarrow> False)"
| "py_eq (JObj xs) b =
     (case b of JObj ys \<Rightarrow> length xs = length ys \<and> py_eq_items xs ys | _ \<Rightarrow> False)"
| "py_eq_items [] ys = True"
| "py_eq_items (kv # xs) ys =
     (case map_of ys (fst kv) of
        None \<Rightarrow> False
      | Some w \<Rightarrow> py_eq (snd kv) w \<and> py_eq_items xs ys)"
| "py_eq_list [] ys = (ys = [])"
| "py_eq_list (x # xs) ys =
     (case ys of [] \<Rightarrow> False | y # ys' \<Rightarrow> py_eq x y \<and> py_eq_list xs ys')"

text \<open>\<^verbatim>\<open>obj["key"]\<close> with a string key: only a dict can be subscripted so.\<close>

fun getitem :: "json \<Rightarrow> string \<Rightarrow> exc + json" where
  "getitem (JObj kvs) k = (case map_of kvs k of None \<Rightarrow> Inl KeyError | Some v \<Rightarrow> Inr v)"
| "getitem _ k = Inl TypeError"

text \<open>\<^verbatim>\<open>obj.get("key")\<close>: only a dict has the method.\<close>

fun get_method :: "json \<Rightarrow> string \<Rightarrow> exc + json" where
  "get_method (JObj kvs) k = (case map_of kvs k of None \<Rightarrow> Inr JNull | Some v \<Rightarrow> Inr v)"
| "get_method _ k = Inl AttributeError"

text \<open>Iteration (\<^verbatim>\<open>for x in obj\<close>): a list gives its elements, a dict its keys, a string
  its characters; nothing else is iterable.\<close>

fun py_iter :: "json \<Rightarrow> exc + json list" where
  "py_iter (JArr xs) = Inr xs"
| "py_iter (JObj kvs) = Inr (map (\<lambda>kv. JStr (fst kv)) kvs)"
| "py_iter (JStr s) = Inr (map (\<lambda>c. JStr [c]) s)"
| "py_iter (JUStr us) =
     Inr (map (\<lambda>u. case u of Ch c \<Rightarrow> JStr [c] | Surrogate k \<Rightarrow> JUStr [Surrogate k]) us)"
| "py_iter _ = Inl TypeError"

text \<open>The characters of a \<^verbatim>\<open>str\<close>, and the \<^verbatim>\<open>str\<close> of given characters.\<close>

fun uchars :: "json \<Rightarrow> exc + uchar list" where
  "uchars (JStr s) = Inr (map Ch s)"
| "uchars (JUStr us) = Inr us"
| "uchars _ = Inl TypeError"

fun the_char :: "uchar \<Rightarrow> char option" where
  "the_char (Ch c) = Some c"
| "the_char (Surrogate k) = None"

definition mk_str :: "uchar list \<Rightarrow> json" where
  "mk_str us =
     (if list_all (\<lambda>u. the_char u \<noteq> None) us
      then JStr (List.map_filter the_char us) else JUStr us)"

text \<open>\<^verbatim>\<open>", ".join(xs)\<close>: every item must be a string.\<close>

fun join_uchars :: "json list \<Rightarrow> exc + uchar list" where
  "join_uchars [] = Inr []"
| "join_uchars [x] = uchars x"
| "join_uchars (x # y # ys) =
     bnd (uchars x) (\<lambda>a. bnd (join_uchars (y # ys)) (\<lambda>r. Inr (a @ map Ch '', '' @ r)))"

definition join_strs :: "json list \<Rightarrow> exc + json" where
  "join_strs xs = bnd (join_uchars xs) (\<lambda>us. Inr (mk_str us))"

subsection \<open>Dicts with arbitrary hashable keys\<close>

type_synonym pydict = "(json \<times> json) list"

fun hashable :: "json \<Rightarrow> bool" where
  "hashable (JArr xs) = False"
| "hashable (JObj kvs) = False"
| "hashable _ = True"

text \<open>\<^verbatim>\<open>d.get(k)\<close> for a hashable key: the entry whose key equals \<open>k\<close>.\<close>

fun dict_get :: "pydict \<Rightarrow> json \<Rightarrow> json option" where
  "dict_get [] k = None"
| "dict_get ((k', v) # d) k = (if py_eq k' k then Some v else dict_get d k)"

text \<open>\<^verbatim>\<open>d[k] = v\<close>: an equal key keeps its place and its first spelling and takes the new
  value; a new key goes last.\<close>

fun dict_store :: "pydict \<Rightarrow> json \<Rightarrow> json \<Rightarrow> pydict" where
  "dict_store [] k v = [(k, v)]"
| "dict_store ((k', v') # d) k v =
     (if py_eq k' k then (k', v) # d else (k', v') # dict_store d k v)"

definition dict_set :: "pydict \<Rightarrow> json \<Rightarrow> json \<Rightarrow> exc + pydict" where
  "dict_set d k v = (if hashable k then Inr (dict_store d k v) else Inl TypeError)"

section \<open>The URL pattern\<close>

text \<open>
  \<^verbatim>\<open>r"https://www\.mangas\.io/lire/([^/]+)/([\d\.]+)"\<close>. After the literal prefix, the
  first group is the run of characters up to the next slash (it cannot cross one, and a
  slash must follow, so no shorter run matches), and the second is the longest run of
  digits and dots. Both must be non-empty. Among 8-bit characters \<^verbatim>\<open>\d\<close> matches the
  ten ASCII digits only.
\<close>

definition url_prefix :: string where
  "url_prefix = ''https://www.mangas.io/lire/''"

definition digit_or_dot :: "char \<Rightarrow> bool" where
  "digit_or_dot c = (c \<in> set ''0123456789.'')"

definition match_here :: "string \<Rightarrow> (string \<times> string) option" where
  "match_here s =
     (if take (length url_prefix) s = url_prefix then
        let r = drop (length url_prefix) s;
            g1 = takeWhile (\<lambda>c. c \<noteq> CHR ''/'') r
        in (case dropWhile (\<lambda>c. c \<noteq> CHR ''/'') r of
              [] \<Rightarrow> None
            | _ # t \<Rightarrow>
                let g2 = takeWhile digit_or_dot t
                in if g1 \<noteq> [] \<and> g2 \<noteq> [] then Some (g1, g2) else None)
      else None)"

text \<open>\<^verbatim>\<open>re.match\<close> tries the start of the string, \<^verbatim>\<open>re.search\<close> every position from
  the left.\<close>

definition re_match :: "string \<Rightarrow> (string \<times> string) option" where
  "re_match s = match_here s"

fun re_search :: "string \<Rightarrow> (string \<times> string) option" where
  "re_search [] = match_here []"
| "re_search (c # s) =
     (case match_here (c # s) of Some g \<Rightarrow> Some g | None \<Rightarrow> re_search s)"

section \<open>\<^verbatim>\<open>float\<close> on a run of digits and dots\<close>

text \<open>
  \<^verbatim>\<open>float(s)\<close> for the strings the second group can hold: digits with at most one dot
  and at least one digit, else \<^verbatim>\<open>ValueError\<close>. The result is the binary64 number
  nearest to the decimal (ties to even, gradual underflow, overflow to infinity).
\<close>

definition digit_val :: "char \<Rightarrow> int" where
  "digit_val c = of_char c - 48"

definition is_digit :: "char \<Rightarrow> bool" where
  "is_digit c = (c \<in> set ''0123456789'')"

definition digits_val :: "string \<Rightarrow> int" where
  "digits_val s = foldl (\<lambda>a c. 10 * a + digit_val c) 0 s"

function bit_length :: "int \<Rightarrow> int" where
  "bit_length n = (if n \<le> 0 then 0 else 1 + bit_length (n div 2))"
  by pat_completeness auto
termination
  by (relation "measure nat") auto

declare bit_length.simps [simp del]

definition pow2 :: "int \<Rightarrow> rat" where
  "pow2 p = (if 0 \<le> p then 2 ^ nat p else 1 / 2 ^ nat (- p))"

text \<open>\<open>round_double n d\<close> rounds the positive fraction \<open>n / d\<close> to binary64: \<open>e\<close> is
  its binary exponent, \<open>p\<close> the exponent of the last place of a 53-bit significand (not
  below that of the subnormals), \<open>m\<close> the significand rounded half to even.\<close>

definition round_double :: "int \<Rightarrow> int \<Rightarrow> pyfloat" where
  "round_double n d =
     (if n = 0 then Finite 0
      else
        let e0 = bit_length n - bit_length d;
            e = (if pow2 e0 \<le> of_int n / of_int d then e0 else e0 - 1);
            p = max (e - 52) (- 1074);
            num = (if 0 \<le> p then n else n * 2 ^ nat (- p));
            den = (if 0 \<le> p then d * 2 ^ nat p else d);
            q = num div den;
            r = num mod den;
            m = (if 2 * r < den then q
                 else if den < 2 * r then q + 1
                 else if even q then q else q + 1);
            v = of_int m * pow2 p
        in if 2 ^ 1024 \<le> v then PosInf else Finite v)"

definition py_float :: "string \<Rightarrow> exc + pyfloat" where
  "py_float s =
     (let ip = takeWhile (\<lambda>c. c \<noteq> CHR ''.'') s;
          fp = (case dropWhile (\<lambda>c. c \<noteq> CHR ''.'') s of [] \<Rightarrow> [] | _ # f \<Rightarrow> f)
      in if list_all is_digit ip \<and> list_all is_digit fp \<and> (ip \<noteq> [] \<or> fp \<noteq> [])
         then Inr (round_double (digits_val (ip @ fp)) (10 ^ length fp))
         else Inl ValueError)"

section \<open>Formatting\<close>

function digits :: "nat \<Rightarrow> string" where
  "digits n =
     (if n < 10 then [char_of (48 + n)] else digits (n div 10) @ [char_of (48 + n mod 10)])"
  by pat_completeness auto
termination
  by (relation "measure id") auto

declare digits.simps [simp del]

definition show_int :: "int \<Rightarrow> string" where
  "show_int i = (if i < 0 then ''-'' @ digits (nat (- i)) else digits (nat i))"

text \<open>The text of \<^verbatim>\<open>str(x)\<close> and \<^verbatim>\<open>f"{x}"\<close> where it is made of 8-bit characters: a
  string is itself, \<^verbatim>\<open>None\<close>, the booleans and the ints have their literals; the text of
  a float, a list or a dict is Python's \<^verbatim>\<open>repr\<close>, the parameter \<open>r\<close>.\<close>

fun py_str :: "(json \<Rightarrow> string) \<Rightarrow> json \<Rightarrow> string" where
  "py_str r (JStr s) = s"
| "py_str r JNull = ''None''"
| "py_str r (JBool b) = (if b then ''True'' else ''False'')"
| "py_str r (JInt i) = show_int i"
| "py_str r v = r v"

text \<open>\<^verbatim>\<open>str(x)\<close> as a value: a string with a lone surrogate is itself too.\<close>

fun str_value :: "(json \<Rightarrow> string) \<Rightarrow> json \<Rightarrow> json" where
  "str_value r (JUStr us) = JUStr us"
| "str_value r v = JStr (py_str r v)"

section \<open>The plugin object and its environment\<close>

text \<open>A path of the file system holds nothing, a readable regular file, or something
  whose opening for reading raises (a directory, a file without permission).\<close>

datatype node = Missing | Regular string | Faulty exc

text \<open>A response: its status and what \<^verbatim>\<open>response.json()\<close> returns, \<open>None\<close> when the
  body is no JSON and the call raises.\<close>

record response =
  status_code :: int
  body :: "json option"

text \<open>
  The fields of \<^verbatim>\<open>self\<close> (\<open>url\<close>, \<open>cache_folder\<close> for \<^verbatim>\<open>self.config.cache_folder\<close>,
  \<open>headers\<close>, \<open>bearer\<close>, \<open>slug\<close>, \<open>chapter_nb\<close>) and the environment the methods act on:
  \<^item> \<open>fs\<close>, the file system, with the exceptions \<^verbatim>\<open>os.makedirs\<close> and \<^verbatim>\<open>open(_, "w")\<close>
    raise on a path;
  \<^item> \<open>tty\<close>, what the \<open>n\<close>-th interactive read (\<^verbatim>\<open>input\<close>, \<^verbatim>\<open>getpass\<close>) returns or
    raises, and \<open>prompts\<close>, the number of reads so far;
  \<^item> \<open>net\<close>, the outcome of the \<open>n\<close>-th POST given its URL, headers and JSON body, and
    \<open>sent\<close>, the POSTs issued so far, oldest first.
  \<open>bearer\<close> holds whatever the login response carries under \<^verbatim>\<open>"token"\<close>, and
  \<open>chapter_nb\<close> the float, or the matched text when \<^verbatim>\<open>float\<close> raised.
\<close>

record state =
  url :: string
  cache_folder :: "string option"
  headers :: "string \<rightharpoonup> string"
  bearer :: json
  slug :: string
  chapter_nb :: json
  fs :: "string \<Rightarrow> node"
  makedirs_err :: "string \<Rightarrow> exc option"
  open_w_err :: "string \<Rightarrow> exc option"
  tty :: "nat \<Rightarrow> exc + string"
  prompts :: nat
  net :: "nat \<Rightarrow> string \<Rightarrow> (string \<rightharpoonup> string) \<Rightarrow> json \<Rightarrow> exc + response"
  sent :: "(string \<times> json) list"

text \<open>\<^verbatim>\<open>__init__\<close>, after the base class has set \<open>url\<close>, \<open>config\<close> and \<open>headers\<close>: the
  class attributes are the defaults and the request headers are added.\<close>

definition init :: "state \<Rightarrow> state" where
  "init s = s\<lparr>
     bearer := JStr [],
     slug := [],
     chapter_nb := JFloat (Finite 0),
     headers := headers s ++ map_of [
       (''Accept'', ''*/*''),
       (''Accept-Language'', ''fr,fr-FR;q=0.8,en-US;q=0.5,en;q=0.3''),
       (''Content-Type'', ''application/json; charset=utf-8''),
       (''Origin'', ''https://www.mangas.io''),
       (''DNT'', ''1''),
       (''Connection'', ''keep-alive''),
       (''Sec-Fetch-Dest'', ''empty''),
       (''Sec-Fetch-Mode'', ''cors''),
       (''Sec-Fetch-Site'', ''same-site''),
       (''Pragma'', ''no-cache''),
       (''Cache-Control'', ''no-cache'')]\<rparr>"

definition is_valid_url :: "string \<Rightarrow> bool" where
  "is_valid_url u = (re_match u \<noteq> None)"

subsection \<open>HTTP\<close>

text \<open>\<^verbatim>\<open>requests.post\<close>: the environment decides the outcome; the request is logged.\<close>

definition requests_post :: "string \<Rightarrow> json \<Rightarrow> state \<Rightarrow> (exc + response) \<times> state" where
  "requests_post u j s =
     (net s (length (sent s)) u (headers s) j, s\<lparr>sent := sent s @ [(u, j)]\<rparr>)"

text \<open>Modelled from the spec: \<^verbatim>\<open>http_post\<close> of \<^verbatim>\<open>izneo_get/tools\<close> is not among the
  sources; the spec calls it a generic HTTP POST helper with built-in retry. One call is
  one logged exchange whose outcome, a response or an exception, the environment
  decides.\<close>

definition http_post :: "string \<Rightarrow> json \<Rightarrow> state \<Rightarrow> (exc + response) \<times> state" where
  "http_post u j s =
     (net s (length (sent s)) u (headers s) j, s\<lparr>sent := sent s @ [(u, j)]\<rparr>)"

subsection \<open>The token cache\<close>

definition cache_file :: string where
  "cache_file = ''TOKEN_MANGAS_IO''"

text \<open>\<^verbatim>\<open>f"{cache_folder}/{self.cache_file}"\<close> with
  \<^verbatim>\<open>cache_folder = self.config.cache_folder or "cache"\<close>.\<close>

definition file_token :: "state \<Rightarrow> string" where
  "file_token s =
     (case cache_folder s of
        None \<Rightarrow> ''cache''
      | Some d \<Rightarrow> if d = [] then ''cache'' else d) @ ''/'' @ cache_file"

text \<open>\<^verbatim>\<open>os.path.dirname\<close> (POSIX): the part up to the last slash, without its trailing
  slashes unless it is made of slashes only.\<close>

definition dirname :: "string \<Rightarrow> string" where
  "dirname p =
     (let head = rev (dropWhile (\<lambda>c. c \<noteq> CHR ''/'') (rev p))
      in if head \<noteq> [] \<and> \<not> list_all (\<lambda>c. c = CHR ''/'') head
         then rev (dropWhile (\<lambda>c. c = CHR ''/'') (rev head))
         else head)"

text \<open>Reading in text mode translates every line ending (CR LF, CR) to LF; writing on
  POSIX writes the characters as they are.\<close>

fun universal_newlines :: "string \<Rightarrow> string" where
  "universal_newlines [] = []"
| "universal_newlines [c] = (if c = CHR 0x0D then [CHR 0x0A] else [c])"
| "universal_newlines (c # d # cs) =
     (if c = CHR 0x0D then
        (if d = CHR 0x0A then CHR 0x0A # universal_newlines cs
         else CHR 0x0A # universal_newlines (d # cs))
      else c # universal_newlines (d # cs))"

text \<open>\<^verbatim>\<open>read_token\<close>: only \<^verbatim>\<open>FileNotFoundError\<close> is passed over.\<close>

definition read_token :: "state \<Rightarrow> exc option \<times> state" where
  "read_token s =
     (case fs s (file_token s) of
        Missing \<Rightarrow> (None, s)
      | Regular c \<Rightarrow> (None, s\<lparr>bearer := JStr (universal_newlines c)\<rparr>)
      | Faulty e \<Rightarrow> if e = FileNotFoundError then (None, s) else (Some e, s))"

text \<open>\<^verbatim>\<open>write_token\<close>: \<^verbatim>\<open>os.makedirs\<close>, then \<^verbatim>\<open>open(_, "w")\<close>, which empties the file,
  then \<^verbatim>\<open>f.write(token)\<close>, which raises \<^verbatim>\<open>TypeError\<close> unless the token is a string, and
  \<^verbatim>\<open>UnicodeEncodeError\<close> for a string that the encoding cannot encode.\<close>

definition write_token :: "json \<Rightarrow> state \<Rightarrow> exc option \<times> state" where
  "write_token token s =
     (case makedirs_err s (dirname (file_token s)) of
        Some e \<Rightarrow> (Some e, s)
      | None \<Rightarrow>
          (case open_w_err s (file_token s) of
             Some e \<Rightarrow> (Some e, s)
           | None \<Rightarrow>
               (case token of
                  JStr t \<Rightarrow> (None, s\<lparr>fs := (fs s)(file_token s := Regular t)\<rparr>)
                | JUStr us \<Rightarrow>
                    (Some UnicodeEncodeError, s\<lparr>fs := (fs s)(file_token s := Regular [])\<rparr>)
                | _ \<Rightarrow> (Some TypeError, s\<lparr>fs := (fs s)(file_token s := Regular [])\<rparr>))))"

subsection \<open>The session\<close>

definition validation_url :: string where
  "validation_url = ''https://api.mangas.io/auth/token_validation''"

definition login_url :: string where
  "login_url = ''https://api.mangas.io/auth/login''"

definition api_url :: string where
  "api_url = ''https://api.mangas.io/api''"

text \<open>\<^verbatim>\<open>is_token_valid\<close>: the \<^verbatim>\<open>try\<close> covers the request only, and catches
  \<^verbatim>\<open>requests.RequestException\<close> only.\<close>

definition is_token_valid :: "state \<Rightarrow> (exc + bool) \<times> state" where
  "is_token_valid s =
     (if \<not> truthy (bearer s) then (Inr False, s)
      else
        (case requests_post validation_url (JObj [(''token'', bearer s)]) s of
           (Inl e, s1) \<Rightarrow> if e = RequestException then (Inr False, s1) else (Inl e, s1)
         | (Inr resp, s1) \<Rightarrow>
             if status_code resp \<noteq> 200 then (Inr False, s1)
             else
               (case body resp of
                  None \<Rightarrow> (Inl JSONDecodeError, s1)
                | Some d \<Rightarrow>
                    (case get_method d ''status'' of
                       Inl e \<Rightarrow> (Inl e, s1)
                     | Inr v \<Rightarrow> (Inr (py_eq v (JStr ''success'')), s1)))))"

text \<open>\<^verbatim>\<open>get_bearer\<close>: two interactive reads, then the login request, outside any
  \<^verbatim>\<open>try\<close>.\<close>

definition get_bearer :: "state \<Rightarrow> (exc + json) \<times> state" where
  "get_bearer s =
     (case tty s (prompts s) of
        Inl e \<Rightarrow> (Inl e, s\<lparr>prompts := prompts s + 1\<rparr>)
      | Inr login_email \<Rightarrow>
          (case tty s (prompts s + 1) of
             Inl e \<Rightarrow> (Inl e, s\<lparr>prompts := prompts s + 2\<rparr>)
           | Inr password \<Rightarrow>
               (case requests_post login_url
                       (JObj [(''email'', JStr login_email), (''password'', JStr password)])
                       (s\<lparr>prompts := prompts s + 2\<rparr>) of
                  (Inl e, s1) \<Rightarrow> (Inl e, s1)
                | (Inr resp, s1) \<Rightarrow>
                    if status_code resp \<noteq> 200 then (Inr (JStr []), s1)
                    else
                      (case body resp of
                         None \<Rightarrow> (Inl JSONDecodeError, s1)
                       | Some d \<Rightarrow> (getitem d ''token'', s1)))))"

text \<open>The loop of \<^verbatim>\<open>authenticate\<close>,
  \<^verbatim>\<open>while not self.is_token_valid(): self.bearer = self.get_bearer()\<close>. It has no bound:
  not returning is the value \<open>None\<close>.\<close>

partial_function (option) login_loop :: "state \<Rightarrow> (exc option \<times> state) option" where
  "login_loop s =
     (case is_token_valid s of
        (Inl e, s1) \<Rightarrow> Some (Some e, s1)
      | (Inr ok, s1) \<Rightarrow>
          if ok then Some (None, s1)
          else
            (case get_bearer s1 of
               (Inl e, s2) \<Rightarrow> Some (Some e, s2)
             | (Inr tok, s2) \<Rightarrow> login_loop (s2\<lparr>bearer := tok\<rparr>)))"

text \<open>\<^verbatim>\<open>authenticate\<close>. Where \<^verbatim>\<open>write_token\<close> has returned, the token is a string of
  8-bit characters, and so is the text of the f-string.\<close>

definition authenticate :: "(json \<Rightarrow> string) \<Rightarrow> state \<Rightarrow> (exc option \<times> state) option" where
  "authenticate r s =
     (case read_token s of
        (Some e, s1) \<Rightarrow> Some (Some e, s1)
      | (None, s1) \<Rightarrow>
          (case login_loop s1 of
             None \<Rightarrow> None
           | Some (Some e, s2) \<Rightarrow> Some (Some e, s2)
           | Some (None, s2) \<Rightarrow>
               (case write_token (bearer s2) s2 of
                  (Some e, s3) \<Rightarrow> Some (Some e, s3)
                | (None, s3) \<Rightarrow>
                    Some (None, s3\<lparr>headers :=
                      (headers s3)(''authorization'' \<mapsto> ''Bearer '' @ py_str r (bearer s3))\<rparr>))))"

section \<open>Metadata and pages\<close>

text \<open>\<^verbatim>\<open>_parse_url\<close>: nothing happens once \<open>slug\<close> is set. The two groups are assigned
  before \<^verbatim>\<open>float\<close> is called, so a \<^verbatim>\<open>ValueError\<close> leaves the slug and the matched
  text behind.\<close>

definition parse_url :: "state \<Rightarrow> exc option \<times> state" where
  "parse_url s =
     (if slug s = [] then
        (case re_search (url s) of
           None \<Rightarrow> (None, s)
         | Some (g1, g2) \<Rightarrow>
             let s1 = s\<lparr>slug := g1, chapter_nb := JStr g2\<rparr>
             in (case py_float g2 of
                   Inl e \<Rightarrow> (Some e, s1)
                 | Inr f \<Rightarrow> (None, s1\<lparr>chapter_nb := JFloat f\<rparr>)))
      else (None, s))"

datatype ReadDirection = RTOL | LTOR

text \<open>The fields of \<^verbatim>\<open>BookInfos\<close> the plugin sets (\<open>chapter_number\<close> is its field
  \<^verbatim>\<open>chapter\<close>, a reserved word here). The class is not among the sources:
  the defaults of its constructor are the parameter \<open>dflt\<close> of the functions below.
  \<open>custom_fields\<close> is \<^verbatim>\<open>None\<close> or a dict; its one entry of interest is
  \<^verbatim>\<open>"pages_map"\<close>.\<close>

record BookInfos =
  title :: json
  pages :: json
  authors :: json
  volume :: json
  chapter_number :: json
  description :: json
  read_direction :: ReadDirection
  page_urls :: "string list"
  custom_fields :: "(string \<times> pydict) list option"

definition reading_chapter_query :: string where
  "reading_chapter_query =
     ''query getReadingChapter($slug: String, $chapterNb: Float) {\<newline>'' @
     ''  manga(slug: $slug) {\<newline>'' @
     ''    _id\<newline>'' @
     ''    title\<newline>'' @
     ''    direction\<newline>'' @
     ''    authors {\<newline>'' @
     ''      name\<newline>'' @
     ''      __typename\<newline>'' @
     ''    }\<newline>'' @
     ''    volumes {\<newline>'' @
     ''      _id\<newline>'' @
     ''      number\<newline>'' @
     ''      description\<newline>'' @
     ''      chapters {\<newline>'' @
     ''        _id\<newline>'' @
     ''        title\<newline>'' @
     ''        number\<newline>'' @
     ''        __typename\<newline>'' @
     ''      }\<newline>'' @
     ''      __typename\<newline>'' @
     ''    }\<newline>'' @
     ''    chapter(number: $chapterNb) {\<newline>'' @
     ''      _id\<newline>'' @
     ''      number\<newline>'' @
     ''      title\<newline>'' @
     ''      pageCount\<newline>'' @
     ''      pages {\<newline>'' @
     ''        _id\<newline>'' @
     ''        number\<newline>'' @
     ''        __typename\<newline>'' @
     ''      }\<newline>'' @
     ''      __typename\<newline>'' @
     ''    }\<newline>'' @
     ''    __typename\<newline>'' @
     ''  }\<newline>'' @
     ''}''"

definition page_by_id_query :: string where
  "page_by_id_query =
     ''query getPageById($id: ID!, $quality: PageType) {\<newline>'' @
     ''  page(id: $id) {\<newline>'' @
     ''    image(type: $quality) {\<newline>'' @
     ''      url\<newline>'' @
     ''    }\<newline>'' @
     ''  }\<newline>'' @
     ''}''"

text \<open>\<^verbatim>\<open>[author["name"] for author in ...]\<close>\<close>

fun author_names :: "json list \<Rightarrow> exc + json list" where
  "author_names [] = Inr []"
| "author_names (a # as) =
     bnd (getitem a ''name'') (\<lambda>n. bnd (author_names as) (\<lambda>ns. Inr (n # ns)))"

text \<open>The inner loop over the chapters of one volume: whether one has the id. The
  \<^verbatim>\<open>break\<close> ends this loop.\<close>

fun scan_chapters :: "json list \<Rightarrow> json \<Rightarrow> exc + bool" where
  "scan_chapters [] chapter_id = Inr False"
| "scan_chapters (c # cs) chapter_id =
     bnd (getitem c ''_id'')
       (\<lambda>i. if py_eq i chapter_id then Inr True else scan_chapters cs chapter_id)"

text \<open>The outer loop over the volumes, with \<open>(volume_number, volume_desc)\<close> as it stands.
  It goes on after a volume that matched.\<close>

fun scan_volumes ::
  "(json \<Rightarrow> string) \<Rightarrow> json list \<Rightarrow> json \<Rightarrow> json \<times> json \<Rightarrow> exc + json \<times> json" where
  "scan_volumes r [] chapter_id acc = Inr acc"
| "scan_volumes r (v # vs) chapter_id acc =
     bnd (getitem v ''chapters'') (\<lambda>chs.
     bnd (py_iter chs) (\<lambda>cl.
     bnd (scan_chapters cl chapter_id) (\<lambda>found.
       if found then
         bnd (getitem v ''number'') (\<lambda>n.
         bnd (getitem v ''description'') (\<lambda>d.
           scan_volumes r vs chapter_id (str_value r n, d)))
       else scan_volumes r vs chapter_id acc)))"

text \<open>\<^verbatim>\<open>{page["number"]: page["_id"] for page in ...}\<close>, entry by entry.\<close>

fun build_pages_map :: "json list \<Rightarrow> pydict \<Rightarrow> exc + pydict" where
  "build_pages_map [] d = Inr d"
| "build_pages_map (p # ps) d =
     bnd (getitem p ''number'') (\<lambda>k.
     bnd (getitem p ''_id'') (\<lambda>v.
     bnd (dict_set d k v) (\<lambda>d'. build_pages_map ps d')))"

definition fill_infos :: "(json \<Rightarrow> string) \<Rightarrow> BookInfos \<Rightarrow> json \<Rightarrow> exc + BookInfos" where
  "fill_infos r dflt data =
     bnd (getitem data ''data'') (\<lambda>data1.
     bnd (getitem data1 ''manga'') (\<lambda>manga_data.
     bnd (getitem manga_data ''title'') (\<lambda>title'.
     bnd (getitem manga_data ''direction'') (\<lambda>direction.
     bnd (getitem manga_data ''authors'') (\<lambda>authors1.
     bnd (py_iter authors1) (\<lambda>authors2.
     bnd (author_names authors2) (\<lambda>names.
     bnd (join_strs names) (\<lambda>authors'.
     bnd (getitem manga_data ''chapter'') (\<lambda>chapter_data.
     bnd (getitem chapter_data ''_id'') (\<lambda>chapter_id.
     bnd (getitem manga_data ''volumes'') (\<lambda>volumes1.
     bnd (py_iter volumes1) (\<lambda>volumes2.
     bnd (scan_volumes r volumes2 chapter_id (JStr [], JStr [])) (\<lambda>vol.
     bnd (getitem chapter_data ''number'') (\<lambda>number.
     bnd (getitem chapter_data ''pageCount'') (\<lambda>page_count.
     bnd (getitem chapter_data ''pages'') (\<lambda>pages1.
     bnd (if truthy pages1
          then bnd (py_iter pages1) (\<lambda>pages2. build_pages_map pages2 [])
          else Inr []) (\<lambda>pages_map.
       Inr (dflt\<lparr>
         title := title',
         pages := page_count,
         authors := authors',
         volume := fst vol,
         chapter_number := str_value r number,
         description := snd vol,
         read_direction := (if py_eq direction (JStr ''rtl'') then RTOL else LTOR),
         page_urls := replicate (length pages_map) [],
         custom_fields := Some [(''pages_map'', pages_map)]\<rparr>))))))))))))))))))"

definition reading_chapter_body :: "state \<Rightarrow> json" where
  "reading_chapter_body s =
     JObj [
       (''operationName'', JStr ''getReadingChapter''),
       (''variables'', JObj [
          (''chapterNb'', chapter_nb s),
          (''slug'', JStr (slug s)),
          (''quality'', JStr ''HD'')]),
       (''query'', JStr reading_chapter_query)]"

text \<open>The result for "nothing to show": \<^verbatim>\<open>BookInfos(title="", pages=0)\<close>.\<close>

definition sentinel :: "BookInfos \<Rightarrow> BookInfos" where
  "sentinel dflt = dflt\<lparr>title := JStr [], pages := JInt 0\<rparr>"

definition get_book_infos ::
  "(json \<Rightarrow> string) \<Rightarrow> BookInfos \<Rightarrow> state \<Rightarrow> (exc + BookInfos) \<times> state" where
  "get_book_infos r dflt s =
     (case parse_url s of
        (Some e, s1) \<Rightarrow> (Inl e, s1)
      | (None, s1) \<Rightarrow>
          (case http_post api_url (reading_chapter_body s1) s1 of
             (Inl e, s2) \<Rightarrow> (Inl e, s2)
           | (Inr resp, s2) \<Rightarrow>
               if status_code resp \<noteq> 200 then (Inr (sentinel dflt), s2)
               else
                 (case body resp of
                    None \<Rightarrow> (Inl JSONDecodeError, s2)
                  | Some data \<Rightarrow>
                      if \<not> truthy data then (Inr (sentinel dflt), s2)
                      else
                        (case get_method data ''data'' of
                           Inl e \<Rightarrow> (Inl e, s2)
                         | Inr v \<Rightarrow>
                             if \<not> truthy v then (Inr (sentinel dflt), s2)
                             else (fill_infos r dflt data, s2)))))"

definition page_by_id_body :: "json \<Rightarrow> json" where
  "page_by_id_body page_id =
     JObj [
       (''operationName'', JStr ''getPageById''),
       (''variables'', JObj [(''id'', page_id), (''quality'', JStr ''HD'')]),
       (''query'', JStr page_by_id_query)]"

text \<open>The body of \<^verbatim>\<open>before_download_page\<close>, as one call runs it once it holds the
  semaphore. The \<^verbatim>\<open>try\<close> covers the second request and the reading of its response,
  and catches every \<^verbatim>\<open>Exception\<close>; \<^verbatim>\<open>get_book_infos\<close> runs before it.\<close>

definition before_download_page ::
  "(json \<Rightarrow> string) \<Rightarrow> BookInfos \<Rightarrow> int \<Rightarrow> string \<Rightarrow> state \<Rightarrow> (exc + json) \<times> state" where
  "before_download_page r dflt page_num u s =
     (case get_book_infos r dflt s of
        (Inl e, s1) \<Rightarrow> (Inl e, s1)
      | (Inr book_infos, s1) \<Rightarrow>
          (case custom_fields book_infos of
             None \<Rightarrow> (Inr (JStr []), s1)
           | Some cf \<Rightarrow>
               if cf = [] then (Inr (JStr []), s1)
               else
                 (case map_of cf ''pages_map'' of
                    None \<Rightarrow> (Inr (JStr []), s1)
                  | Some pages_map \<Rightarrow>
                      (case dict_get pages_map (JInt (page_num + 1)) of
                         None \<Rightarrow> (Inr (JStr []), s1)
                       | Some page_id \<Rightarrow>
                           if \<not> truthy page_id then (Inr (JStr []), s1)
                           else
                             (case http_post api_url (page_by_id_body page_id) s1 of
                                (Inl e, s2) \<Rightarrow>
                                  if is_Exception e then (Inr (JStr []), s2) else (Inl e, s2)
                              | (Inr resp, s2) \<Rightarrow>
                                  if status_code resp \<noteq> 200 then (Inr (JStr []), s2)
                                  else
                                    (case body resp of
                                       None \<Rightarrow> (Inr (JStr []), s2)
                                     | Some data \<Rightarrow>
                                         (case bnd (getitem data ''data'') (\<lambda>a.
                                               bnd (getitem a ''page'') (\<lambda>b.
                                               bnd (getitem b ''image'') (\<lambda>c.
                                               getitem c ''url''))) of
                                            Inl e \<Rightarrow> (Inr (JStr []), s2)
                                          | Inr image_url \<Rightarrow> (Inr image_url, s2))))))))"

section \<open>Notions for stating the properties\<close>


text \<open>The fields a session leaves alone: everything but \<open>bearer\<close>, \<open>prompts\<close> and
  \<open>sent\<close>.\<close>

definition session_frame :: "state \<Rightarrow> state \<Rightarrow> bool" where
  "session_frame s s' =
     (s' = s\<lparr>bearer := bearer s', prompts := prompts s', sent := sent s'\<rparr>)"

text \<open>For stating what \<^verbatim>\<open>_fill_infos\<close> builds: the chapter object of a response, the
  number of a page, the id of the last page of a list whose number equals \<open>k\<close>, and
  whether no two numbers of a list are equal.\<close>

definition chapter_of :: "json \<Rightarrow> exc + json" where
  "chapter_of data =
     bnd (getitem data ''data'') (\<lambda>d. bnd (getitem d ''manga'') (\<lambda>m. getitem m ''chapter''))"

fun last_id :: "json list \<Rightarrow> json \<Rightarrow> json option" where
  "last_id [] k = None"
| "last_id (p # ps) k =
     (case last_id ps k of
        Some v \<Rightarrow> Some v
      | None \<Rightarrow>
          (case getitem p ''number'' of
             Inl e \<Rightarrow> None
           | Inr n \<Rightarrow>
               if py_eq n k then (case getitem p ''_id'' of Inl e \<Rightarrow> None | Inr v \<Rightarrow> Some v)
               else None))"

definition page_numbers :: "json list \<Rightarrow> json list" where
  "page_numbers ps = map (\<lambda>p. case getitem p ''number'' of Inl e \<Rightarrow> JNull | Inr n \<Rightarrow> n) ps"

fun pairwise_ne :: "json list \<Rightarrow> bool" where
  "pairwise_ne [] = True"
| "pairwise_ne (k # ks) = (list_all (\<lambda>k'. \<not> py_eq k k') ks \<and> pairwise_ne ks)"

text \<open>Whether the chapter list of the volume \<open>v\<close> is scanned without an exception and
  holds the chapter id.\<close>

definition has_chapter :: "json \<Rightarrow> json \<Rightarrow> bool" where
  "has_chapter v chapter_id =
     (case getitem v ''chapters'' of
        Inl e \<Rightarrow> False
      | Inr chs \<Rightarrow>
          (case py_iter chs of
             Inl e \<Rightarrow> False
           | Inr cl \<Rightarrow> scan_chapters cl chapter_id = Inr True))"

section \<open>Environments and responses of the examples\<close>

text \<open>A new plugin object for the URL \<open>u\<close>, in an environment whose cache can be
  written: \<open>files\<close> is the file system, \<open>keys\<close> the interactive input and \<open>server\<close> the
  network.\<close>

definition fresh ::
  "string \<Rightarrow> (string \<Rightarrow> node) \<Rightarrow> (nat \<Rightarrow> exc + string) \<Rightarrow>
   (nat \<Rightarrow> string \<Rightarrow> (string \<rightharpoonup> string) \<Rightarrow> json \<Rightarrow> exc + response) \<Rightarrow> state" where
  "fresh u files keys server = init \<lparr>
     url = u, cache_folder = None, headers = Map.empty, bearer = JNull, slug = [],
     chapter_nb = JNull, fs = files, makedirs_err = (\<lambda>p. None), open_w_err = (\<lambda>p. None),
     tty = keys, prompts = 0, net = server, sent = []\<rparr>"

text \<open>A server that accepts the token \<open>good\<close> and no other, issues \<open>good\<close> at every
  login, and answers every query with the payload \<open>payload\<close>.\<close>

definition demo_server ::
  "json \<Rightarrow> json \<Rightarrow> nat \<Rightarrow> string \<Rightarrow> (string \<rightharpoonup> string) \<Rightarrow> json \<Rightarrow> exc + response" where
  "demo_server good payload n u h j =
     (if u = validation_url then
        Inr \<lparr>status_code = 200,
             body = Some (JObj [(''status'',
               JStr (if j = JObj [(''token'', good)] then ''success'' else ''expired''))])\<rparr>
      else if u = login_url then
        Inr \<lparr>status_code = 200, body = Some (JObj [(''token'', good)])\<rparr>
      else Inr \<lparr>status_code = 200, body = Some payload\<rparr>)"


text \<open>Stand-ins for the examples: the defaults of the \<^verbatim>\<open>BookInfos\<close> constructor, a page
  and a volume of a response, and the response to \<^verbatim>\<open>getReadingChapter\<close> for the chapter
  with the id \<^verbatim>\<open>c\<close>, given its volumes, page count and pages.\<close>

definition blank_infos :: BookInfos where
  "blank_infos = \<lparr>title = JNull, pages = JNull, authors = JNull, volume = JNull,
     chapter_number = JNull, description = JNull, read_direction = LTOR, page_urls = [],
     custom_fields = None\<rparr>"

definition page :: "int \<Rightarrow> string \<Rightarrow> json" where
  "page n i = JObj [(''_id'', JStr i), (''number'', JInt n), (''__typename'', JStr ''Page'')]"

definition volume_of :: "int \<Rightarrow> string \<Rightarrow> string list \<Rightarrow> json" where
  "volume_of n d ids = JObj [(''_id'', JStr d), (''number'', JInt n), (''description'', JStr d),
     (''chapters'', JArr (map (\<lambda>i. JObj [(''_id'', JStr i)]) ids))]"

definition chapter_payload :: "json \<Rightarrow> json \<Rightarrow> json \<Rightarrow> json" where
  "chapter_payload vols page_count pgs =
     JObj [(''data'', JObj [(''manga'', JObj [
       (''_id'', JStr ''m''),
       (''title'', JStr ''Demo''),
       (''direction'', JStr ''rtl''),
       (''authors'', JArr [JObj [(''name'', JStr ''A'')], JObj [(''name'', JStr ''B'')]]),
       (''volumes'', vols),
       (''chapter'', JObj [
          (''_id'', JStr ''c''),
          (''number'', JInt 3),
          (''title'', JStr ''Three''),
          (''pageCount'', page_count),
          (''pages'', pgs)])])])]"

text \<open>A plugin object for the URL \<open>u\<close> whose metadata query is answered with
  \<open>payload\<close>.\<close>

definition meta_demo :: "string \<Rightarrow> json \<Rightarrow> state" where
  "meta_demo u payload = fresh u (\<lambda>p. Missing) (\<lambda>n. Inl EOFError) (demo_server JNull payload)"

section \<open>Facts about the values\<close>

lemma py_eq_JStr [simp]: "py_eq v (JStr t) = (v = JStr t)"
  by (cases v) auto


text \<open>Evaluation of the examples.\<close>

lemma show_int_demo: "show_int 1 = ''1''" "show_int 2 = ''2''" "show_int 3 = ''3''"
  by code_simp+

lemmas demo_defs = fill_infos_def chapter_payload_def volume_of_def page_def bnd_def
  dict_set_def blank_infos_def show_int_demo join_strs_def mk_str_def List.map_filter_simps

section \<open>The session\<close>




lemma session_frame_fields:
  assumes "session_frame s t"
  shows "headers t = headers s" "fs t = fs s"
    "makedirs_err t = makedirs_err s" "open_w_err t = open_w_err s"
    "file_token t = file_token s"
  using assms unfolding session_frame_def file_token_def
  by (cases s, cases t, simp)+

lemma is_token_valid_session:
  "is_token_valid s = (res, s') \<Longrightarrow>
     session_frame s s' \<and> bearer s' = bearer s \<and> prompts s' = prompts s"
  unfolding session_frame_def
  by (auto simp: is_token_valid_def requests_post_def split: if_splits sum.splits option.splits)


lemma login_loop_accept:
  "is_token_valid s = (Inr True, s1) \<Longrightarrow> login_loop s = Some (None, s1)"
  by (subst login_loop.simps) simp









text \<open>
  C1. When \<^verbatim>\<open>read_token\<close> loads a token from the cache file and \<^verbatim>\<open>is_token_valid\<close>
  returns true for it, \<^verbatim>\<open>authenticate\<close> comes to an end without a single login prompt
  (\<open>prompts\<close> is unchanged, and the probe is the only request sent), and when it returns,
  the headers hold \<^verbatim>\<open>authorization\<close> as \<^verbatim>\<open>"Bearer "\<close> followed by that token. It returns
  exactly when the cache file can be written; otherwise it raises what the write raised.
\<close>

theorem authenticate_cached_token_valid:
  assumes "fs s (file_token s) = Regular c"
    and "is_token_valid (s\<lparr>bearer := JStr (universal_newlines c)\<rparr>) = (Inr True, s1)"
  shows "\<exists>res s'. authenticate r s = Some (res, s') \<and>
           prompts s' = prompts s \<and>
           sent s' = sent s @ [(validation_url, JObj [(''token'', JStr (universal_newlines c))])] \<and>
           (res = None \<longrightarrow>
              headers s' ''authorization'' = Some (''Bearer '' @ universal_newlines c)) \<and>
           ((res = None) =
              (makedirs_err s (dirname (file_token s)) = None \<and>
               open_w_err s (file_token s) = None))"
proof -
  let ?s0 = "s\<lparr>bearer := JStr (universal_newlines c)\<rparr>"
  have rd: "read_token s = (None, ?s0)"
    using assms(1) by (simp add: read_token_def)
  have lp: "login_loop ?s0 = Some (None, s1)"
    using assms(2) by (rule login_loop_accept)
  from is_token_valid_session[OF assms(2)]
  have fr: "session_frame ?s0 s1" "bearer s1 = JStr (universal_newlines c)"
    "prompts s1 = prompts s"
    by auto
  have snt: "sent s1 = sent s @ [(validation_url, JObj [(''token'', JStr (universal_newlines c))])]"
    using assms(2)
    by (auto simp: is_token_valid_def requests_post_def split: if_splits sum.splits option.splits)
  note ff = session_frame_fields[OF fr(1)]
  have ft: "file_token s1 = file_token s" using ff(5) by (simp add: file_token_def)
  show ?thesis
    using rd lp fr(2,3) snt ff(1,3,4) ft
    by (auto simp: authenticate_def write_token_def split: option.splits)
qed

text \<open>
  C3, as amended. \<^verbatim>\<open>is_token_valid\<close> fails closed in each of four situations, where it
  returns false and raises nothing: the token is empty (falsy); the probe request raises
  \<^verbatim>\<open>requests.RequestException\<close>; the response has a status other than 200; the response
  body is a JSON object whose \<^verbatim>\<open>status\<close> member is absent or is not \<^verbatim>\<open>"success"\<close>.
\<close>

theorem is_token_valid_fails_closed:
  assumes "\<not> truthy (bearer s) \<or>
     net s (length (sent s)) validation_url (headers s) (JObj [(''token'', bearer s)]) =
       Inl RequestException \<or>
     (\<exists>resp. net s (length (sent s)) validation_url (headers s) (JObj [(''token'', bearer s)]) =
          Inr resp \<and>
        (status_code resp \<noteq> 200 \<or>
         (\<exists>kvs. body resp = Some (JObj kvs) \<and>
                map_of kvs ''status'' \<noteq> Some (JStr ''success''))))"
  shows "fst (is_token_valid s) = Inr False"
  using assms
  by (auto simp: is_token_valid_def requests_post_def split: if_splits sum.splits option.splits)

text \<open>The cache holds \<^verbatim>\<open>tok\<close>, which the server accepts: no prompt, and the header is
  \<^verbatim>\<open>Bearer tok\<close>.\<close>

theorem authenticate_cached_token_valid_witness:
  "\<exists>res s'.
     authenticate (\<lambda>v. [])
       (fresh [] (\<lambda>p. if p = ''cache/TOKEN_MANGAS_IO'' then Regular ''tok'' else Missing)
          (\<lambda>n. Inl EOFError) (demo_server (JStr ''tok'') JNull)) = Some (res, s') \<and>
     res = None \<and> prompts s' = 0 \<and> length (sent s') = 1 \<and>
     headers s' ''authorization'' = Some ''Bearer tok''"
proof -
  let ?w = "fresh [] (\<lambda>p. if p = ''cache/TOKEN_MANGAS_IO'' then Regular ''tok'' else Missing)
          (\<lambda>n. Inl EOFError) (demo_server (JStr ''tok'') JNull)"
  have f: "fs ?w (file_token ?w) = Regular ''tok''"
    by (simp add: fresh_def init_def file_token_def cache_file_def)
  have "fst (is_token_valid (?w\<lparr>bearer := JStr (universal_newlines ''tok'')\<rparr>)) = Inr True"
    by (simp add: is_token_valid_def requests_post_def fresh_def init_def demo_server_def)
  then have v: "is_token_valid (?w\<lparr>bearer := JStr (universal_newlines ''tok'')\<rparr>) =
      (Inr True, snd (is_token_valid (?w\<lparr>bearer := JStr (universal_newlines ''tok'')\<rparr>)))"
    by (metis prod.collapse)
  from authenticate_cached_token_valid[OF f v, of "\<lambda>v. []"]
  show ?thesis
    by (auto simp: fresh_def init_def)
qed

text \<open>The four situations: no token; a network error; status 500; a body that says
  \<^verbatim>\<open>expired\<close>.\<close>

theorem is_token_valid_fails_closed_witness:
  "fst (is_token_valid (fresh [] (\<lambda>p. Missing) (\<lambda>n. Inl EOFError)
          (demo_server (JStr ''good'') JNull))) = Inr False \<and>
   fst (is_token_valid (fresh [] (\<lambda>p. Missing) (\<lambda>n. Inl EOFError)
          (\<lambda>n u h j. Inl RequestException)\<lparr>bearer := JStr ''old''\<rparr>)) = Inr False \<and>
   fst (is_token_valid (fresh [] (\<lambda>p. Missing) (\<lambda>n. Inl EOFError)
          (\<lambda>n u h j. Inr \<lparr>status_code = 500, body = None\<rparr>)\<lparr>bearer := JStr ''old''\<rparr>)) = Inr False \<and>
   fst (is_token_valid (fresh [] (\<lambda>p. Missing) (\<lambda>n. Inl EOFError)
          (demo_server (JStr ''good'') JNull)\<lparr>bearer := JStr ''old''\<rparr>)) = Inr False"
proof (intro conjI)
  show "fst (is_token_valid (fresh [] (\<lambda>p. Missing) (\<lambda>n. Inl EOFError)
          (demo_server (JStr ''good'') JNull))) = Inr False"
    by (rule is_token_valid_fails_closed) (simp add: fresh_def init_def)
  show "fst (is_token_valid (fresh [] (\<lambda>p. Missing) (\<lambda>n. Inl EOFError)
          (\<lambda>n u h j. Inl RequestException)\<lparr>bearer := JStr ''old''\<rparr>)) = Inr False"
    by (rule is_token_valid_fails_closed) (simp add: fresh_def init_def)
  show "fst (is_token_valid (fresh [] (\<lambda>p. Missing) (\<lambda>n. Inl EOFError)
          (\<lambda>n u h j. Inr \<lparr>status_code = 500, body = None\<rparr>)\<lparr>bearer := JStr ''old''\<rparr>)) = Inr False"
    by (rule is_token_valid_fails_closed) (simp add: fresh_def init_def)
  show "fst (is_token_valid (fresh [] (\<lambda>p. Missing) (\<lambda>n. Inl EOFError)
          (demo_server (JStr ''good'') JNull)\<lparr>bearer := JStr ''old''\<rparr>)) = Inr False"
    by (rule is_token_valid_fails_closed) (simp add: fresh_def init_def demo_server_def)
qed




lemma write_token_returns: "write_token tok s = (None, s') \<Longrightarrow> \<exists>t. tok = JStr t"
  by (auto simp: write_token_def split: option.splits json.splits)





text \<open>C3 as first stated fails for a response with status 200 whose body has no
  \<^verbatim>\<open>status\<close> field that says \<^verbatim>\<open>success\<close> because it is no JSON, or JSON that is no object:
  \<^verbatim>\<open>response.json()\<close> and \<^verbatim>\<open>.get\<close> stand after the \<^verbatim>\<open>try\<close>, and what they raise reaches the
  caller.\<close>

theorem is_token_valid_fails_closed_counterexample:
  "fst (is_token_valid (fresh [] (\<lambda>p. Missing) (\<lambda>n. Inl EOFError)
          (\<lambda>n u h j. Inr \<lparr>status_code = 200, body = None\<rparr>)\<lparr>bearer := JStr ''old''\<rparr>)) =
     Inl JSONDecodeError \<and>
   fst (is_token_valid (fresh [] (\<lambda>p. Missing) (\<lambda>n. Inl EOFError)
          (\<lambda>n u h j. Inr \<lparr>status_code = 200, body = Some (JArr [])\<rparr>)\<lparr>bearer := JStr ''old''\<rparr>)) =
     Inl AttributeError \<and>
   fst (is_token_valid (fresh [] (\<lambda>p. Missing) (\<lambda>n. Inl EOFError)
          (\<lambda>n u h j. Inr \<lparr>status_code = 200, body = Some (JStr ''expired'')\<rparr>)
          \<lparr>bearer := JStr ''old''\<rparr>)) =
     Inl AttributeError"
  by (simp add: is_token_valid_def requests_post_def fresh_def init_def)

section \<open>URL parsing\<close>

lemma match_here_slug: "match_here s = Some (g1, g2) \<Longrightarrow> g1 \<noteq> []"
  by (auto simp: match_here_def Let_def split: if_splits list.splits)

lemma re_search_slug: "re_search s = Some (g1, g2) \<Longrightarrow> g1 \<noteq> []"
  by (induction s) (auto dest: match_here_slug split: option.splits)

lemma py_float_12_5: "py_float ''12.5'' = Inr (Finite (25 / 2))"
  by code_simp

lemma re_search_demo:
  "re_search ''https://www.mangas.io/lire/demo-slug/12.5'' = Some (''demo-slug'', ''12.5'')"
  "re_search ''https://www.mangas.io/lire/demo-slug/3'' = Some (''demo-slug'', ''3'')"
  "re_search ''https://www.mangas.io/lire/demo-slug/1.2.3'' = Some (''demo-slug'', ''1.2.3'')"
  by (simp_all add: match_here_def url_prefix_def digit_or_dot_def)

lemma py_float_demo:
  "py_float ''3'' = Inr (Finite 3)"
  "py_float ''1.2.3'' = Inl ValueError"
  by code_simp+

text \<open>
  C8. URL parsing is idempotent: a second call of \<^verbatim>\<open>_parse_url\<close> returns without raising
  and leaves the whole object, the pair \<open>(slug, chapter_nb)\<close> in it, as the first call left
  it. Once a call has set the pair from a matching URL, the slug is not empty, and no
  later call changes anything, whatever \<^verbatim>\<open>self.url\<close> has become. And the chapter segment
  \<^verbatim>\<open>12.5\<close> parses to the float 12.5, the rational \<open>25 / 2\<close>.
\<close>

theorem parse_url_idempotent:
  "parse_url (snd (parse_url s)) = (None, snd (parse_url s)) \<and>
   (slug s = [] \<and> re_search (url s) = Some (g1, g2) \<longrightarrow>
      slug (snd (parse_url s)) = g1 \<and> g1 \<noteq> [] \<and>
      chapter_nb (snd (parse_url s)) =
        (case py_float g2 of Inl e \<Rightarrow> JStr g2 | Inr f \<Rightarrow> JFloat f) \<and>
      (\<forall>u. parse_url (snd (parse_url s)\<lparr>url := u\<rparr>) = (None, snd (parse_url s)\<lparr>url := u\<rparr>))) \<and>
   py_float ''12.5'' = Inr (Finite (25 / 2))"
proof (intro conjI impI)
  show "parse_url (snd (parse_url s)) = (None, snd (parse_url s))"
    by (auto simp: parse_url_def Let_def dest: re_search_slug split: option.splits sum.splits)
next
  assume a: "slug s = [] \<and> re_search (url s) = Some (g1, g2)"
  then have g: "g1 \<noteq> []" using re_search_slug by blast
  with a show "slug (snd (parse_url s)) = g1" "g1 \<noteq> []"
    "chapter_nb (snd (parse_url s)) =
        (case py_float g2 of Inl e \<Rightarrow> JStr g2 | Inr f \<Rightarrow> JFloat f)"
    "\<forall>u. parse_url (snd (parse_url s)\<lparr>url := u\<rparr>) = (None, snd (parse_url s)\<lparr>url := u\<rparr>)"
    by (auto simp: parse_url_def Let_def split: option.splits sum.splits)
next
  show "py_float ''12.5'' = Inr (Finite (25 / 2))" by (rule py_float_12_5)
qed

theorem parse_url_idempotent_witness:
  "slug (snd (parse_url (fresh ''https://www.mangas.io/lire/demo-slug/12.5''
      (\<lambda>p. Missing) (\<lambda>n. Inl EOFError) (demo_server JNull JNull)))) = ''demo-slug'' \<and>
   chapter_nb (snd (parse_url (fresh ''https://www.mangas.io/lire/demo-slug/12.5''
      (\<lambda>p. Missing) (\<lambda>n. Inl EOFError) (demo_server JNull JNull)))) = JFloat (Finite (25 / 2)) \<and>
   fst (parse_url (snd (parse_url (fresh ''https://www.mangas.io/lire/demo-slug/12.5''
      (\<lambda>p. Missing) (\<lambda>n. Inl EOFError) (demo_server JNull JNull)))
        \<lparr>url := ''https://www.mangas.io/lire/other/7''\<rparr>)) = None \<and>
   slug (snd (parse_url (snd (parse_url (fresh ''https://www.mangas.io/lire/demo-slug/12.5''
      (\<lambda>p. Missing) (\<lambda>n. Inl EOFError) (demo_server JNull JNull)))
        \<lparr>url := ''https://www.mangas.io/lire/other/7''\<rparr>))) = ''demo-slug''"
proof -
  let ?w = "fresh ''https://www.mangas.io/lire/demo-slug/12.5''
      (\<lambda>p. Missing) (\<lambda>n. Inl EOFError) (demo_server JNull JNull)"
  have h: "slug ?w = [] \<and> re_search (url ?w) = Some (''demo-slug'', ''12.5'')"
    by (simp add: fresh_def init_def re_search_demo del: re_search.simps)
  from parse_url_idempotent[of ?w "''demo-slug''" "''12.5''"] h
  have "slug (snd (parse_url ?w)) = ''demo-slug''"
    "chapter_nb (snd (parse_url ?w)) =
        (case py_float ''12.5'' of Inl e \<Rightarrow> JStr ''12.5'' | Inr f \<Rightarrow> JFloat f)"
    "\<forall>u. parse_url (snd (parse_url ?w)\<lparr>url := u\<rparr>) = (None, snd (parse_url ?w)\<lparr>url := u\<rparr>)"
    by blast+
  then show ?thesis by (simp add: py_float_12_5)
qed

section \<open>Metadata\<close>

lemma parse_url_sent: "sent (snd (parse_url s)) = sent s"
  by (auto simp: parse_url_def Let_def split: option.splits sum.splits)

lemma get_book_infos_sent:
  "get_book_infos r dflt s = (Inr bi, s1) \<Longrightarrow>
     s1 = (snd (parse_url s))\<lparr>sent := sent s @
       [(api_url, reading_chapter_body (snd (parse_url s)))]\<rparr>"
  using parse_url_sent[of s]
  by (auto simp: get_book_infos_def http_post_def
      split: prod.splits option.splits sum.splits if_splits)

text \<open>
  C4, as amended. Let the URL parse without raising and the backend answer the metadata
  query. If the status is not 200, or the payload is JSON that is empty (falsy: \<^verbatim>\<open>null\<close>,
  \<^verbatim>\<open>{}\<close>, \<^verbatim>\<open>[]\<close>, ...) or an object whose top-level \<^verbatim>\<open>data\<close> is missing or empty,
  \<^verbatim>\<open>get_book_infos\<close> returns the sentinel \<^verbatim>\<open>BookInfos\<close> with the empty title and
  \<open>pages = 0\<close>, and raises nothing.
\<close>

theorem get_book_infos_sentinel:
  assumes "parse_url s = (None, s1)"
    and "net s1 (length (sent s1)) api_url (headers s1) (reading_chapter_body s1) = Inr resp"
    and "status_code resp \<noteq> 200 \<or>
         (\<exists>d. body resp = Some d \<and>
            (\<not> truthy d \<or>
             (\<exists>kvs. d = JObj kvs \<and>
                (case map_of kvs ''data'' of None \<Rightarrow> True | Some v \<Rightarrow> \<not> truthy v))))"
  shows "fst (get_book_infos r dflt s) = Inr (sentinel dflt) \<and>
         title (sentinel dflt) = JStr [] \<and> pages (sentinel dflt) = JInt 0"
  using assms
  by (auto simp: get_book_infos_def http_post_def sentinel_def split: option.splits)

theorem get_book_infos_sentinel_witness:
  "fst (get_book_infos (\<lambda>v. []) blank_infos
     (meta_demo ''https://www.mangas.io/lire/demo-slug/3'' (JObj [(''errors'', JArr [JStr ''no''])])))
     = Inr (blank_infos\<lparr>title := JStr [], pages := JInt 0\<rparr>) \<and>
   fst (get_book_infos (\<lambda>v. []) blank_infos
     (fresh ''https://www.mangas.io/lire/demo-slug/3'' (\<lambda>p. Missing) (\<lambda>n. Inl EOFError)
        (\<lambda>n u h j. Inr \<lparr>status_code = 503, body = None\<rparr>)))
     = Inr (blank_infos\<lparr>title := JStr [], pages := JInt 0\<rparr>)"
proof -
  let ?w = "meta_demo ''https://www.mangas.io/lire/demo-slug/3'' (JObj [(''errors'', JArr [JStr ''no''])])"
  let ?v = "fresh ''https://www.mangas.io/lire/demo-slug/3'' (\<lambda>p. Missing) (\<lambda>n. Inl EOFError)
        (\<lambda>n u h j. Inr \<lparr>status_code = 503, body = None\<rparr>)"
  have "fst (parse_url ?w) = None" "fst (parse_url ?v) = None"
    by (simp_all add: parse_url_def meta_demo_def fresh_def init_def re_search_demo py_float_demo
        del: re_search.simps)
  then have p: "parse_url ?w = (None, snd (parse_url ?w))" "parse_url ?v = (None, snd (parse_url ?v))"
    by (metis prod.collapse)+
  have n: "net (snd (parse_url ?w)) (length (sent (snd (parse_url ?w)))) api_url
          (headers (snd (parse_url ?w))) (reading_chapter_body (snd (parse_url ?w))) =
        Inr \<lparr>status_code = 200, body = Some (JObj [(''errors'', JArr [JStr ''no''])])\<rparr>"
    by (simp add: parse_url_def meta_demo_def fresh_def init_def re_search_demo py_float_demo
        demo_server_def api_url_def validation_url_def login_url_def del: re_search.simps)
  have m: "net (snd (parse_url ?v)) (length (sent (snd (parse_url ?v)))) api_url
          (headers (snd (parse_url ?v))) (reading_chapter_body (snd (parse_url ?v))) =
        Inr \<lparr>status_code = 503, body = None\<rparr>"
    by (simp add: parse_url_def fresh_def init_def re_search_demo py_float_demo
        del: re_search.simps)
  from get_book_infos_sentinel[OF p(1) n, of "\<lambda>v. []" blank_infos]
    get_book_infos_sentinel[OF p(2) m, of "\<lambda>v. []" blank_infos]
  show ?thesis by (simp add: sentinel_def)
qed

text \<open>C4 as first stated fails for a payload without top-level data that is a
  non-empty list (\<^verbatim>\<open>.get\<close> raises \<^verbatim>\<open>AttributeError\<close>), for a body that is no JSON
  (\<^verbatim>\<open>.json()\<close> raises), and, whatever the response, for a URL whose chapter segment is
  \<^verbatim>\<open>1.2.3\<close> (\<^verbatim>\<open>float\<close> raises \<^verbatim>\<open>ValueError\<close>).\<close>

theorem get_book_infos_sentinel_counterexample:
  "fst (get_book_infos (\<lambda>v. []) blank_infos
     (meta_demo ''https://www.mangas.io/lire/demo-slug/3'' (JArr [JInt 1]))) = Inl AttributeError \<and>
   fst (get_book_infos (\<lambda>v. []) blank_infos
     (fresh ''https://www.mangas.io/lire/demo-slug/3'' (\<lambda>p. Missing) (\<lambda>n. Inl EOFError)
        (\<lambda>n u h j. Inr \<lparr>status_code = 200, body = None\<rparr>))) = Inl JSONDecodeError \<and>
   fst (get_book_infos (\<lambda>v. []) blank_infos
     (fresh ''https://www.mangas.io/lire/demo-slug/1.2.3'' (\<lambda>p. Missing) (\<lambda>n. Inl EOFError)
        (\<lambda>n u h j. Inr \<lparr>status_code = 503, body = None\<rparr>))) = Inl ValueError"
  by (simp add: get_book_infos_def http_post_def parse_url_def meta_demo_def fresh_def init_def
      re_search_demo py_float_demo demo_server_def api_url_def validation_url_def login_url_def
      del: re_search.simps)

section \<open>Pages\<close>

lemma dict_get_None: "(dict_get d k = None) = (\<forall>kv \<in> set d. \<not> py_eq (fst kv) k)"
  by (induction d k rule: dict_get.induct) auto

text \<open>
  C7, as amended. After a metadata fetch that returned, if the page table is absent (no custom
  fields, or none under \<^verbatim>\<open>pages_map\<close>) or no key of it equals \<open>page_num + 1\<close> (an empty
  table has none), \<^verbatim>\<open>before_download_page\<close> returns the empty string, and the state it
  leaves is the one the metadata fetch left: the metadata query is the only request
  sent, and the \<^verbatim>\<open>getPageById\<close> request is not issued.
\<close>

theorem before_download_page_no_key:
  assumes "get_book_infos r dflt s = (Inr bi, s1)"
    and "custom_fields bi = None \<or>
         (\<exists>cf. custom_fields bi = Some cf \<and>
            (map_of cf ''pages_map'' = None \<or>
             (\<exists>pm. map_of cf ''pages_map'' = Some pm \<and>
                (\<forall>kv \<in> set pm. \<not> py_eq (fst kv) (JInt (page_num + 1))))))"
  shows "before_download_page r dflt page_num u s = (Inr (JStr []), s1) \<and>
         sent s1 = sent s @ [(api_url, reading_chapter_body (snd (parse_url s)))]"
proof
  from assms(2) have "custom_fields bi = None \<or>
         (\<exists>cf. custom_fields bi = Some cf \<and>
            (map_of cf ''pages_map'' = None \<or>
             (\<exists>pm. map_of cf ''pages_map'' = Some pm \<and>
                dict_get pm (JInt (page_num + 1)) = None)))"
    by (simp add: dict_get_None)
  then show "before_download_page r dflt page_num u s = (Inr (JStr []), s1)"
    by (auto simp: before_download_page_def assms(1) split: option.splits)
  from get_book_infos_sent[OF assms(1)]
  show "sent s1 = sent s @ [(api_url, reading_chapter_body (snd (parse_url s)))]"
    by (metis state.select_convs(13) state.surjective state.update_convs(13))
qed

text \<open>The page index 5 of a chapter whose table is \<^verbatim>\<open>{1:"a", 2:"b"}\<close>: the empty string,
  after one request.\<close>

theorem before_download_page_no_key_witness:
  "fst (before_download_page (\<lambda>v. []) blank_infos 5 []
      (meta_demo ''https://www.mangas.io/lire/demo-slug/3''
         (chapter_payload (JArr []) (JInt 2) (JArr [page 1 ''a'', page 2 ''b''])))) = Inr (JStr []) \<and>
   length (sent (snd (before_download_page (\<lambda>v. []) blank_infos 5 []
      (meta_demo ''https://www.mangas.io/lire/demo-slug/3''
         (chapter_payload (JArr []) (JInt 2) (JArr [page 1 ''a'', page 2 ''b'']))))))  = 1"
proof -
  let ?d = "chapter_payload (JArr []) (JInt 2) (JArr [page 1 ''a'', page 2 ''b''])"
  let ?w = "meta_demo ''https://www.mangas.io/lire/demo-slug/3'' ?d"
  obtain bi where bi: "fill_infos (\<lambda>v. []) blank_infos ?d = Inr bi"
    and cf: "custom_fields bi = Some [(''pages_map'', [(JInt 1, JStr ''a''), (JInt 2, JStr ''b'')])]"
    by (simp add: demo_defs)
  have "fst (get_book_infos (\<lambda>v. []) blank_infos ?w) = fill_infos (\<lambda>v. []) blank_infos ?d"
    by (simp add: get_book_infos_def http_post_def parse_url_def meta_demo_def fresh_def init_def
        re_search_demo py_float_demo demo_server_def api_url_def validation_url_def login_url_def
        chapter_payload_def del: re_search.simps)
  with bi have g: "get_book_infos (\<lambda>v. []) blank_infos ?w =
      (Inr bi, snd (get_book_infos (\<lambda>v. []) blank_infos ?w))"
    by (metis prod.collapse)
  have s0: "sent ?w = []" by (simp add: meta_demo_def fresh_def init_def)
  from before_download_page_no_key[OF g, of 5 "[]"] cf s0
  show ?thesis by simp
qed

text \<open>C7 as first stated fails where the metadata fetch inside the call raises: it
  stands before the \<^verbatim>\<open>try\<close>, there is no table, and the call raises instead of returning
  the empty string. So it is for a metadata body that is no JSON, and for one whose
  \<^verbatim>\<open>manga\<close> is \<^verbatim>\<open>null\<close>.\<close>

theorem before_download_page_no_key_counterexample:
  "fst (before_download_page (\<lambda>v. []) blank_infos 0 []
      (fresh ''https://www.mangas.io/lire/demo-slug/3'' (\<lambda>p. Missing) (\<lambda>n. Inl EOFError)
         (\<lambda>n u h j. Inr \<lparr>status_code = 200, body = None\<rparr>))) = Inl JSONDecodeError \<and>
   fst (before_download_page (\<lambda>v. []) blank_infos 0 []
      (meta_demo ''https://www.mangas.io/lire/demo-slug/3''
         (JObj [(''data'', JObj [(''manga'', JNull)])]))) = Inl TypeError"
  by (simp add: before_download_page_def get_book_infos_def http_post_def parse_url_def
      meta_demo_def fresh_def init_def re_search_demo py_float_demo demo_server_def api_url_def
      validation_url_def login_url_def fill_infos_def bnd_def del: re_search.simps)

section \<open>The page table\<close>

text \<open>On hashable values \<^verbatim>\<open>==\<close> is an equivalence: equality of the numeric value, or of
  the value itself when it has none.\<close>

lemma py_eq_hashable:
  "hashable a \<Longrightarrow> hashable b \<Longrightarrow>
     py_eq a b = (num_val a = num_val b \<and> (num_val a = None \<longrightarrow> a = b))"
  by (cases a; cases b; simp; metis)

lemma py_eq_sym: "hashable a \<Longrightarrow> hashable b \<Longrightarrow> py_eq a b = py_eq b a"
  using py_eq_hashable[of a b] py_eq_hashable[of b a] by metis

lemma py_eq_trans:
  assumes "hashable a" "hashable b" "hashable c" "py_eq a b" "py_eq b c"
  shows "py_eq a c"
proof -
  have 1: "num_val a = num_val b \<and> (num_val a = None \<longrightarrow> a = b)"
    by (rule iffD1[OF py_eq_hashable[OF assms(1,2)] assms(4)])
  have 2: "num_val b = num_val c \<and> (num_val b = None \<longrightarrow> b = c)"
    by (rule iffD1[OF py_eq_hashable[OF assms(2,3)] assms(5)])
  from 1 2 have "num_val a = num_val c \<and> (num_val a = None \<longrightarrow> a = c)"
    by metis
  then show ?thesis
    by (rule iffD2[OF py_eq_hashable[OF assms(1,3)]])
qed

lemma dict_store_keys:
  "\<forall>kv \<in> set d. hashable (fst kv) \<Longrightarrow> hashable k \<Longrightarrow>
     \<forall>kv \<in> set (dict_store d k v). hashable (fst kv)"
  by (induction d k v rule: dict_store.induct) auto

lemma dict_get_store:
  assumes "\<forall>kv \<in> set d. hashable (fst kv)" "hashable k" "hashable x"
  shows "dict_get (dict_store d k v) x = (if py_eq k x then Some v else dict_get d x)"
  using assms
proof (induction d k v rule: dict_store.induct)
  case (1 k v)
  then show ?case by simp
next
  case (2 k' v' d k v)
  from 2(2) have hk: "hashable k'" and hd: "\<forall>kv \<in> set d. hashable (fst kv)"
    by simp_all
  show ?case
  proof (cases "py_eq k' k")
    case True
    have "py_eq k' x = py_eq k x"
      using True py_eq_sym[OF hk 2(3)] py_eq_trans[OF hk 2(3) 2(4)] py_eq_trans[OF 2(3) hk 2(4)]
      by blast
    with True show ?thesis by simp
  next
    case False
    have "\<not> (py_eq k' x \<and> py_eq k x)"
      using False py_eq_sym[OF 2(3) 2(4)] py_eq_trans[OF hk 2(4) 2(3)]
      by blast
    with False 2(1)[OF False hd 2(3) 2(4)] show ?thesis by auto
  qed
qed

lemma dict_store_new:
  "\<forall>kv \<in> set d. \<not> py_eq (fst kv) k \<Longrightarrow> dict_store d k v = d @ [(k, v)]"
  by (induction d k v rule: dict_store.induct) auto

lemma build_pages_map_get:
  assumes "build_pages_map ps d = Inr pm" "\<forall>kv \<in> set d. hashable (fst kv)" "hashable x"
  shows "dict_get pm x = (case last_id ps x of Some v \<Rightarrow> Some v | None \<Rightarrow> dict_get d x)"
  using assms
proof (induction ps arbitrary: d)
  case Nil
  then show ?case by simp
next
  case (Cons p ps)
  from Cons.prems(1) obtain k v where
    kv: "getitem p ''number'' = Inr k" "getitem p ''_id'' = Inr v" "hashable k"
      "build_pages_map ps (dict_store d k v) = Inr pm"
    by (auto simp: bnd_def dict_set_def split: sum.splits if_splits)
  from dict_store_keys[OF Cons.prems(2) kv(3)]
  have "\<forall>kv \<in> set (dict_store d k v). hashable (fst kv)" .
  from Cons.IH[OF kv(4) this Cons.prems(3)] dict_get_store[OF Cons.prems(2) kv(3) Cons.prems(3)] kv
  show ?case by (auto split: option.splits)
qed

lemma build_pages_map_length:
  assumes "build_pages_map ps d = Inr pm" "pairwise_ne (page_numbers ps)"
    "\<forall>kv \<in> set d. \<forall>n \<in> set (page_numbers ps). \<not> py_eq (fst kv) n"
  shows "length pm = length d + length ps"
  using assms
proof (induction ps arbitrary: d)
  case Nil
  then show ?case by simp
next
  case (Cons p ps)
  from Cons.prems(1) obtain k v where
    kv: "getitem p ''number'' = Inr k" "getitem p ''_id'' = Inr v"
      "build_pages_map ps (dict_store d k v) = Inr pm"
    by (auto simp: bnd_def dict_set_def split: sum.splits if_splits)
  from Cons.prems(3) kv(1) have "\<forall>kv \<in> set d. \<not> py_eq (fst kv) k"
    by (simp add: page_numbers_def)
  then have st: "dict_store d k v = d @ [(k, v)]" by (rule dict_store_new)
  from Cons.prems(2) kv(1) have pn: "pairwise_ne (page_numbers ps)"
    and ne: "\<forall>n \<in> set (page_numbers ps). \<not> py_eq k n"
    by (simp_all add: page_numbers_def list_all_iff)
  from Cons.prems(3) ne
  have "\<forall>kv \<in> set (dict_store d k v). \<forall>n \<in> set (page_numbers ps). \<not> py_eq (fst kv) n"
    by (auto simp: st page_numbers_def)
  from Cons.IH[OF kv(3) pn this] st show ?case by simp
qed

lemma build_pages_map_list:
  assumes "truthy pgs" "py_iter pgs = Inr ps" "build_pages_map ps d = Inr pm"
  shows "pgs = JArr ps"
proof (cases pgs)
  case (JStr t)
  with assms obtain c cs where "t = c # cs" by (cases t) auto
  with JStr assms show ?thesis by (auto simp: bnd_def)
next
  case (JUStr us)
  with assms obtain u rest where "us = u # rest" by (cases us) auto
  with JUStr assms show ?thesis by (cases u) (auto simp: bnd_def)
next
  case (JObj kvs)
  with assms obtain kv rest where "kvs = kv # rest" by (cases kvs) auto
  with JObj assms show ?thesis by (auto simp: bnd_def)
qed (use assms in auto)

lemma bnd_Inr: "(bnd m f = Inr y) = (\<exists>x. m = Inr x \<and> f x = Inr y)"
  by (cases m) (simp_all add: bnd_def)

lemma bnd_InrE:
  assumes "bnd m f = Inr y"
  obtains x where "m = Inr x" "f x = Inr y"
  using assms by (auto simp: bnd_Inr)

text \<open>What a successful \<^verbatim>\<open>_fill_infos\<close> tells about the chapter it read.\<close>

lemma fill_infos_chapter:
  assumes "fill_infos r dflt data = Inr bi"
  shows "\<exists>ch pgs pc pm.
     chapter_of data = Inr ch \<and> getitem ch ''pages'' = Inr pgs \<and>
     getitem ch ''pageCount'' = Inr pc \<and> pages bi = pc \<and>
     custom_fields bi = Some [(''pages_map'', pm)] \<and>
     page_urls bi = replicate (length pm) [] \<and>
     (if truthy pgs then \<exists>ps. py_iter pgs = Inr ps \<and> build_pages_map ps [] = Inr pm
      else pm = [])"
  using assms unfolding fill_infos_def
  apply (elim bnd_InrE)
  apply (simp add: chapter_of_def bnd_Inr split: if_splits)
   apply auto
  done

lemma build_pages_map_hashable:
  "build_pages_map ps d = Inr pm \<Longrightarrow> \<forall>n \<in> set (page_numbers ps). hashable n"
proof (induction ps arbitrary: d)
  case Nil
  then show ?case by (simp add: page_numbers_def)
next
  case (Cons p ps)
  from Cons.prems obtain k v where
    kv: "getitem p ''number'' = Inr k" "hashable k"
      "build_pages_map ps (dict_store d k v) = Inr pm"
    by (auto simp: bnd_Inr dict_set_def split: if_splits)
  from Cons.IH[OF kv(3)] kv(1,2) show ?case by (simp add: page_numbers_def)
qed

lemma last_id_None: "\<forall>k \<in> set (page_numbers ys). \<not> py_eq k n \<Longrightarrow> last_id ys n = None"
  by (induction ys) (auto simp: page_numbers_def split: sum.splits)

lemma last_id_append:
  "last_id (xs @ zs) n = (case last_id zs n of Some v \<Rightarrow> Some v | None \<Rightarrow> last_id xs n)"
  by (induction xs) (auto split: option.splits)

lemma last_id_own:
  assumes "getitem p ''number'' = Inr n" "getitem p ''_id'' = Inr i" "hashable n"
    "\<forall>k \<in> set (page_numbers ys). \<not> py_eq k n"
  shows "last_id (xs @ p # ys) n = Some i"
proof -
  from assms(3) have "py_eq n n" by (simp add: py_eq_hashable)
  with assms(1,2) last_id_None[OF assms(4)] show ?thesis
    by (simp add: last_id_append)
qed

text \<open>
  C6, as amended. For every successful metadata response, the table maps each page
  number to the id of the last page of the response's list that carries that number:
  so each page's number is mapped to its own id unless a later page repeats the number
  (the pages \<^verbatim>\<open>[(1,"a"),(2,"b")]\<close> give the table \<^verbatim>\<open>{1:"a", 2:"b"}\<close>). The page-URL
  placeholder list has the size of the table, which is empty when the server returned
  no pages.
\<close>

theorem fill_infos_pages_map:
  assumes "fill_infos r dflt data = Inr bi"
  shows "\<exists>ch pgs pm.
     chapter_of data = Inr ch \<and> getitem ch ''pages'' = Inr pgs \<and>
     custom_fields bi = Some [(''pages_map'', pm)] \<and>
     length (page_urls bi) = length pm \<and>
     (\<not> truthy pgs \<longrightarrow> pm = []) \<and>
     (truthy pgs \<longrightarrow>
        (\<exists>ps. pgs = JArr ps \<and>
           (\<forall>k. hashable k \<longrightarrow> dict_get pm k = last_id ps k) \<and>
           (\<forall>xs p ys n i.
              ps = xs @ p # ys \<and> getitem p ''number'' = Inr n \<and> getitem p ''_id'' = Inr i \<and>
              list_all (\<lambda>k. \<not> py_eq k n) (page_numbers ys) \<longrightarrow>
              dict_get pm n = Some i)))"
proof -
  from fill_infos_chapter[OF assms] obtain ch pgs pm where
    a: "chapter_of data = Inr ch" "getitem ch ''pages'' = Inr pgs"
       "custom_fields bi = Some [(''pages_map'', pm)]"
       "page_urls bi = replicate (length pm) []"
       "if truthy pgs then \<exists>ps. py_iter pgs = Inr ps \<and> build_pages_map ps [] = Inr pm
        else pm = []"
    by blast
  have "\<exists>ps. pgs = JArr ps \<and>
           (\<forall>k. hashable k \<longrightarrow> dict_get pm k = last_id ps k) \<and>
           (\<forall>xs p ys n i.
              ps = xs @ p # ys \<and> getitem p ''number'' = Inr n \<and> getitem p ''_id'' = Inr i \<and>
              list_all (\<lambda>k. \<not> py_eq k n) (page_numbers ys) \<longrightarrow>
              dict_get pm n = Some i)"
    if t: "truthy pgs"
  proof -
    from a(5) t obtain ps where ps: "py_iter pgs = Inr ps" "build_pages_map ps [] = Inr pm"
      by auto
    have l: "pgs = JArr ps" using t ps by (rule build_pages_map_list)
    have g: "dict_get pm k = last_id ps k" if "hashable k" for k
      using build_pages_map_get[OF ps(2) _ that] by (simp split: option.splits)
    have "dict_get pm n = Some i"
      if h: "ps = xs @ p # ys \<and> getitem p ''number'' = Inr n \<and> getitem p ''_id'' = Inr i \<and>
              list_all (\<lambda>k. \<not> py_eq k n) (page_numbers ys)" for xs p ys n i
    proof -
      from h build_pages_map_hashable[OF ps(2)] have hn: "hashable n"
        by (auto simp: page_numbers_def)
      from h have "\<forall>k \<in> set (page_numbers ys). \<not> py_eq k n" by (simp add: list_all_iff)
      with h hn last_id_own[of p n i ys xs] have "last_id ps n = Some i" by simp
      with g[OF hn] show ?thesis by simp
    qed
    with l g show ?thesis by blast
  qed
  with a show ?thesis by auto
qed

theorem fill_infos_pages_map_witness:
  "\<exists>bi pm. fill_infos (\<lambda>v. []) blank_infos
       (chapter_payload (JArr []) (JInt 2) (JArr [page 1 ''a'', page 2 ''b''])) = Inr bi \<and>
     custom_fields bi = Some [(''pages_map'', pm)] \<and>
     pm = [(JInt 1, JStr ''a''), (JInt 2, JStr ''b'')] \<and>
     dict_get pm (JInt 1) = Some (JStr ''a'') \<and> dict_get pm (JInt 2) = Some (JStr ''b'') \<and>
     length (page_urls bi) = 2"
proof -
  let ?d = "chapter_payload (JArr []) (JInt 2) (JArr [page 1 ''a'', page 2 ''b''])"
  obtain bi where bi: "fill_infos (\<lambda>v. []) blank_infos ?d = Inr bi"
    and cf: "custom_fields bi = Some [(''pages_map'', [(JInt 1, JStr ''a''), (JInt 2, JStr ''b'')])]"
    by (simp add: demo_defs)
  from fill_infos_pages_map[OF bi] obtain pm where
    "custom_fields bi = Some [(''pages_map'', pm)]" "length (page_urls bi) = length pm"
    by blast
  with cf have "length (page_urls bi) = 2" by simp
  with bi cf show ?thesis by simp
qed

text \<open>C6 as first stated fails where two pages carry the same number: for the pages
  \<^verbatim>\<open>[(1,"a"),(1,"b")]\<close> the table is \<^verbatim>\<open>{1:"b"}\<close>, which does not map the number of the first
  page to its id.\<close>

theorem fill_infos_pages_map_counterexample:
  "map_sum id custom_fields (fill_infos (\<lambda>v. []) blank_infos
       (chapter_payload (JArr []) (JInt 2) (JArr [page 1 ''a'', page 1 ''b''])))
     = Inr (Some [(''pages_map'', [(JInt 1, JStr ''b'')])]) \<and>
   getitem (page 1 ''a'') ''number'' = Inr (JInt 1) \<and>
   getitem (page 1 ''a'') ''_id'' = Inr (JStr ''a'') \<and>
   dict_get [(JInt 1, JStr ''b'')] (JInt 1) = Some (JStr ''b'')"
  by (simp add: demo_defs)

text \<open>
  C10, as amended. For every successful metadata response, the \<open>pages\<close> field of the
  returned \<^verbatim>\<open>BookInfos\<close> is the server-supplied \<^verbatim>\<open>pageCount\<close>, whatever the table holds,
  and the placeholder list has the size of the table: when \<^verbatim>\<open>pageCount\<close> disagrees with
  the number of entries of the table, the reported page count and the length of the
  placeholder list differ. The table has as many entries as the pages list when no two
  pages of the list carry the same number.
\<close>

theorem fill_infos_page_count:
  assumes "fill_infos r dflt data = Inr bi"
  shows "\<exists>ch pc pgs pm.
     chapter_of data = Inr ch \<and> getitem ch ''pageCount'' = Inr pc \<and>
     getitem ch ''pages'' = Inr pgs \<and> pages bi = pc \<and>
     custom_fields bi = Some [(''pages_map'', pm)] \<and>
     length (page_urls bi) = length pm \<and>
     (\<not> py_eq pc (JInt (int (length pm))) \<longrightarrow>
        \<not> py_eq (pages bi) (JInt (int (length (page_urls bi))))) \<and>
     (\<forall>ps. pgs = JArr ps \<and> pairwise_ne (page_numbers ps) \<longrightarrow> length pm = length ps)"
proof -
  from fill_infos_chapter[OF assms] obtain ch pgs pc pm where
    a: "chapter_of data = Inr ch" "getitem ch ''pages'' = Inr pgs"
       "getitem ch ''pageCount'' = Inr pc" "pages bi = pc"
       "custom_fields bi = Some [(''pages_map'', pm)]"
       "page_urls bi = replicate (length pm) []"
       "if truthy pgs then \<exists>ps. py_iter pgs = Inr ps \<and> build_pages_map ps [] = Inr pm
        else pm = []"
    by blast
  have "length pm = length ps" if h: "pgs = JArr ps \<and> pairwise_ne (page_numbers ps)" for ps
  proof (cases "truthy pgs")
    case True
    with a(7) h have "build_pages_map ps [] = Inr pm" by auto
    from build_pages_map_length[OF this] h show ?thesis by simp
  next
    case False
    with a(7) h show ?thesis by simp
  qed
  with a show ?thesis by auto
qed

theorem fill_infos_page_count_witness:
  "\<exists>bi. fill_infos (\<lambda>v. []) blank_infos
       (chapter_payload (JArr []) (JInt 5) (JArr [page 1 ''a'', page 2 ''b''])) = Inr bi \<and>
     pages bi = JInt 5 \<and> length (page_urls bi) = 2 \<and>
     \<not> py_eq (pages bi) (JInt (int (length (page_urls bi))))"
proof -
  let ?d = "chapter_payload (JArr []) (JInt 5) (JArr [page 1 ''a'', page 2 ''b''])"
  obtain bi where bi: "fill_infos (\<lambda>v. []) blank_infos ?d = Inr bi"
    and cf: "custom_fields bi = Some [(''pages_map'', [(JInt 1, JStr ''a''), (JInt 2, JStr ''b'')])]"
    by (simp add: demo_defs)
  have ch: "chapter_of ?d = Inr (JObj [(''_id'', JStr ''c''), (''number'', JInt 3),
      (''title'', JStr ''Three''), (''pageCount'', JInt 5),
      (''pages'', JArr [page 1 ''a'', page 2 ''b''])])"
    by (simp add: chapter_of_def chapter_payload_def bnd_def)
  from fill_infos_page_count[OF bi] ch cf
  have "pages bi = JInt 5" "length (page_urls bi) = 2"
    "\<not> py_eq (JInt 5) (JInt 2) \<longrightarrow> \<not> py_eq (pages bi) (JInt (int (length (page_urls bi))))"
    by auto
  with bi show ?thesis by simp
qed

text \<open>C10 as first stated fails where two pages carry the same number: with
  \<^verbatim>\<open>pageCount\<close> 1 and the pages \<^verbatim>\<open>[(1,"a"),(1,"b")]\<close>, \<^verbatim>\<open>pageCount\<close> disagrees with the
  length of the pages list, 2, yet the reported page count and the length of the
  placeholder list are both 1.\<close>

theorem fill_infos_page_count_counterexample:
  "map_sum id (\<lambda>b. (pages b, length (page_urls b))) (fill_infos (\<lambda>v. []) blank_infos
       (chapter_payload (JArr []) (JInt 1) (JArr [page 1 ''a'', page 1 ''b''])))
     = Inr (JInt 1, 1) \<and>
   \<not> py_eq (JInt 1) (JInt (int (length [page 1 ''a'', page 1 ''b''])))"
  by (simp add: demo_defs)

text \<open>The scan of the volumes in general: without a volume that lists the chapter the
  fields stay as they were, and otherwise they come from the last volume that lists
  it.\<close>

lemma scan_volumes_none:
  "scan_volumes r vs cid acc = Inr res \<Longrightarrow> list_all (\<lambda>v. \<not> has_chapter v cid) vs \<Longrightarrow>
   res = acc"
proof (induction vs arbitrary: acc)
  case Nil
  then show ?case by simp
next
  case (Cons v vs)
  from Cons.prems have "scan_volumes r vs cid acc = Inr res"
    by (auto simp: bnd_Inr has_chapter_def split: if_splits)
  with Cons show ?case by simp
qed

lemma scan_volumes_last:
  "scan_volumes r (vs @ v # ws) cid acc = Inr res \<Longrightarrow> has_chapter v cid \<Longrightarrow>
   list_all (\<lambda>w. \<not> has_chapter w cid) ws \<Longrightarrow>
   \<exists>n d. getitem v ''number'' = Inr n \<and> getitem v ''description'' = Inr d \<and>
         res = (str_value r n, d)"
proof (induction vs arbitrary: acc)
  case Nil
  from Nil(1,2) obtain n d where
    "getitem v ''number'' = Inr n" "getitem v ''description'' = Inr d"
    "scan_volumes r ws cid (str_value r n, d) = Inr res"
    by (auto simp: bnd_Inr has_chapter_def split: if_splits)
  with scan_volumes_none[OF this(3) Nil(3)] show ?case by simp
next
  case (Cons u vs)
  from Cons.prems(1) have "\<exists>acc'. scan_volumes r (vs @ v # ws) cid acc' = Inr res"
    by (cases acc) (auto simp: bnd_Inr split: if_splits)
  then obtain acc' where "scan_volumes r (vs @ v # ws) cid acc' = Inr res" ..
  from Cons.IH[OF this Cons.prems(2,3)] show ?case .
qed

text \<open>
  C5, at an input where the code departs from it: the chapter \<^verbatim>\<open>c\<close> is listed in
  volume 1 and in volume 2. The \<^verbatim>\<open>break\<close> ends the scan of one volume's chapters only,
  the scan of the volumes goes on, and the fields come from the last volume that lists
  the chapter, not from the first.
\<close>

theorem fill_infos_volume_last_match:
  "map_sum id (\<lambda>b. (volume b, description b)) (fill_infos (\<lambda>v. []) blank_infos
       (chapter_payload (JArr [volume_of 1 ''one'' [''c''], volume_of 2 ''two'' [''c'']])
          (JInt 0) (JArr [])))
     = Inr (JStr ''2'', JStr ''two'')"
  by (simp add: demo_defs)

end
